theory Spec2Isabelle
  imports Main "HOL-Library.Sublist"
begin

section \<open>Tasks + Comments API (main.py)\<close>

text \<open>
  A shallow embedding of \<^verbatim>\<open>src/main.py\<close>: the two tables, the six schemas, the ten
  route functions and the routing table of the FastAPI application. The SQLite database
  behind the SQLModel session is an explicit state, passed to every route function and
  returned by it; an exception raised by a route function is the \<open>Inl\<close> branch of its
  result, and the state returned with it is the state the request leaves behind.
\<close>

subsection \<open>Models (lines 18-27)\<close>

text \<open>
  A stored row always carries its primary key: the \<^verbatim>\<open>Optional[int]\<close> of the source is
  \<^verbatim>\<open>None\<close> only between the construction of the object and the commit that inserts it.
\<close>

record Task =
  id :: int
  title :: string

record Comment =
  id :: int
  task_id :: int
  author :: string
  content :: string

subsection \<open>Schemas (lines 33-60)\<close>

text \<open>
  \<^verbatim>\<open>TaskRead\<close> and \<^verbatim>\<open>CommentRead\<close> have the fields of \<open>Task\<close> and \<open>Comment\<close>, so the
  response of a route is written with the row itself.
\<close>

record TaskCreate =
  title :: string

record TaskUpdate =
  title :: "string option"

record CommentCreate =
  author :: string
  content :: string

record CommentUpdate =
  author :: "string option"
  content :: "string option"

subsection \<open>The store\<close>

text \<open>
  The database is \<^verbatim>\<open>sqlite:///./test.db\<close> (line 11) with the tables \<open>task\<close> and
  \<open>comment\<close>, each a list of rows in the order of insertion. The primary key of both
  tables is an integer column without AUTOINCREMENT, which SQLite fills with 1 in an empty
  table and with the largest key in use plus one otherwise. SQLite does not enforce the
  foreign key of \<open>comment.task_id\<close> unless asked to, and the source never asks.
\<close>

record store =
  tasks :: "Task list"
  comments :: "Comment list"

definition empty_store :: store where
  "empty_store = \<lparr>tasks = [], comments = []\<rparr>"

definition next_id :: "int list \<Rightarrow> int" where
  "next_id ids = (if ids = [] then 1 else Max (set ids) + 1)"

subsection \<open>Errors\<close>

text \<open>
  \<open>HTTPException\<close> is raised by the route functions themselves with a status code and a
  detail; \<open>RequestValidationError\<close> is raised by FastAPI when a path parameter or the
  body does not fit the declared type, before the route function is called.
  \<open>OverflowError\<close> is raised by the SQLite driver when a Python integer that does not
  fit SQLite's signed 64-bit INTEGER is bound as the key of a query; no route function
  catches it, and the application answers 500.
\<close>

datatype error = HTTPException int string | RequestValidationError | OverflowError

subsection \<open>The session\<close>

definition int64 :: "int \<Rightarrow> bool" where
  "int64 i \<longleftrightarrow> - (2 ^ 63) \<le> i \<and> i < 2 ^ 63"

text \<open>The row of a table with a given primary key, if there is one.\<close>

definition select_pk :: "('r \<Rightarrow> int) \<Rightarrow> int \<Rightarrow> 'r list \<Rightarrow> 'r option" where
  "select_pk pk i rows = find (\<lambda>r. pk r = i) rows"

text \<open>
  \<^verbatim>\<open>session.get(Model, pk)\<close>: the key is bound to the query, which raises for a key
  outside the 64-bit range; otherwise the result is the row with that primary key, or
  \<^verbatim>\<open>None\<close>.
\<close>

definition session_get :: "('r \<Rightarrow> int) \<Rightarrow> int \<Rightarrow> 'r list \<Rightarrow> error + 'r option" where
  "session_get pk i rows =
     (if int64 i then Inr (select_pk pk i rows) else Inl OverflowError)"

text \<open>
  \<^verbatim>\<open>session.add(obj); session.commit()\<close> for an object loaded from the table: its
  columns are written back where the primary key is the object's.
\<close>

definition session_update :: "('r \<Rightarrow> int) \<Rightarrow> 'r \<Rightarrow> 'r list \<Rightarrow> 'r list" where
  "session_update pk obj rows = map (\<lambda>r. if pk r = pk obj then obj else r) rows"

text \<open>\<^verbatim>\<open>session.delete(obj); session.commit()\<close>: DELETE where the primary key is the object's.\<close>

definition session_delete :: "('r \<Rightarrow> int) \<Rightarrow> 'r \<Rightarrow> 'r list \<Rightarrow> 'r list" where
  "session_delete pk obj rows = filter (\<lambda>r. pk r \<noteq> pk obj) rows"

subsection \<open>Python truthiness\<close>

text \<open>\<^verbatim>\<open>if payload.field:\<close> on an \<^verbatim>\<open>Optional[str]\<close>: false for \<^verbatim>\<open>None\<close> and for \<^verbatim>\<open>""\<close>.\<close>

fun truthy :: "string option \<Rightarrow> bool" where
  "truthy None = False"
| "truthy (Some v) = (v \<noteq> [])"

subsection \<open>Task endpoints (lines 87-133)\<close>

text \<open>
  A route function takes the store as its \<open>session\<close>. \<^verbatim>\<open>session.add\<close>,
  \<^verbatim>\<open>session.commit\<close> and \<^verbatim>\<open>session.refresh\<close> on a new object insert the row after the
  rows of the table and load the generated key into the object; \<^verbatim>\<open>if not task:\<close> is
  the test for \<^verbatim>\<open>None\<close>, a model instance being truthy.
\<close>

definition create_task :: "TaskCreate \<Rightarrow> store \<Rightarrow> (error + Task) \<times> store" where
  "create_task task session =
     (let db_task = \<lparr>Task.id = next_id (map Task.id (tasks session)),
                     Task.title = TaskCreate.title task\<rparr>
      in (Inr db_task, session\<lparr>tasks := tasks session @ [db_task]\<rparr>))"

definition list_tasks :: "store \<Rightarrow> (error + Task list) \<times> store" where
  "list_tasks session = (Inr (tasks session), session)"

definition get_task :: "int \<Rightarrow> store \<Rightarrow> (error + Task) \<times> store" where
  "get_task task_id' session =
     (case session_get Task.id task_id' (tasks session) of
        Inl e \<Rightarrow> (Inl e, session)
      | Inr None \<Rightarrow> (Inl (HTTPException 404 ''Task not found''), session)
      | Inr (Some task) \<Rightarrow> (Inr task, session))"

definition update_task :: "int \<Rightarrow> TaskUpdate \<Rightarrow> store \<Rightarrow> (error + Task) \<times> store" where
  "update_task task_id' payload session =
     (case session_get Task.id task_id' (tasks session) of
        Inl e \<Rightarrow> (Inl e, session)
      | Inr None \<Rightarrow> (Inl (HTTPException 404 ''Task not found''), session)
      | Inr (Some task) \<Rightarrow>
          (let task = (if truthy (TaskUpdate.title payload)
                       then task\<lparr>Task.title := the (TaskUpdate.title payload)\<rparr>
                       else task)
           in (Inr task, session\<lparr>tasks := session_update Task.id task (tasks session)\<rparr>)))"

definition delete_task :: "int \<Rightarrow> store \<Rightarrow> (error + unit) \<times> store" where
  "delete_task task_id' session =
     (case session_get Task.id task_id' (tasks session) of
        Inl e \<Rightarrow> (Inl e, session)
      | Inr None \<Rightarrow> (Inl (HTTPException 404 ''Task not found''), session)
      | Inr (Some task) \<Rightarrow>
          (Inr (), session\<lparr>tasks := session_delete Task.id task (tasks session)\<rparr>))"

subsection \<open>Comment endpoints (lines 139-195)\<close>

definition list_comments :: "int \<Rightarrow> store \<Rightarrow> (error + Comment list) \<times> store" where
  "list_comments task_id' session =
     (case session_get Task.id task_id' (tasks session) of
        Inl e \<Rightarrow> (Inl e, session)
      | Inr None \<Rightarrow> (Inl (HTTPException 404 ''Task not found''), session)
      | Inr (Some task) \<Rightarrow>
          (Inr (filter (\<lambda>c. Comment.task_id c = task_id') (comments session)), session))"

definition add_comment :: "int \<Rightarrow> CommentCreate \<Rightarrow> store \<Rightarrow> (error + Comment) \<times> store" where
  "add_comment task_id' payload session =
     (case session_get Task.id task_id' (tasks session) of
        Inl e \<Rightarrow> (Inl e, session)
      | Inr None \<Rightarrow> (Inl (HTTPException 404 ''Task not found''), session)
      | Inr (Some task) \<Rightarrow>
          (let comment = \<lparr>Comment.id = next_id (map Comment.id (comments session)),
                          Comment.task_id = task_id',
                          Comment.author = CommentCreate.author payload,
                          Comment.content = CommentCreate.content payload\<rparr>
           in (Inr comment, session\<lparr>comments := comments session @ [comment]\<rparr>)))"

definition get_comment :: "int \<Rightarrow> store \<Rightarrow> (error + Comment) \<times> store" where
  "get_comment comment_id session =
     (case session_get Comment.id comment_id (comments session) of
        Inl e \<Rightarrow> (Inl e, session)
      | Inr None \<Rightarrow> (Inl (HTTPException 404 ''Comment not found''), session)
      | Inr (Some comment) \<Rightarrow> (Inr comment, session))"

definition update_comment ::
  "int \<Rightarrow> CommentUpdate \<Rightarrow> store \<Rightarrow> (error + Comment) \<times> store" where
  "update_comment comment_id payload session =
     (case session_get Comment.id comment_id (comments session) of
        Inl e \<Rightarrow> (Inl e, session)
      | Inr None \<Rightarrow> (Inl (HTTPException 404 ''Comment not found''), session)
      | Inr (Some comment) \<Rightarrow>
          (let comment = (if truthy (CommentUpdate.author payload)
                          then comment\<lparr>Comment.author := the (CommentUpdate.author payload)\<rparr>
                          else comment);
               comment = (if truthy (CommentUpdate.content payload)
                          then comment\<lparr>Comment.content := the (CommentUpdate.content payload)\<rparr>
                          else comment)
           in (Inr comment,
               session\<lparr>comments := session_update Comment.id comment (comments session)\<rparr>)))"

definition delete_comment :: "int \<Rightarrow> store \<Rightarrow> (error + unit) \<times> store" where
  "delete_comment comment_id session =
     (case session_get Comment.id comment_id (comments session) of
        Inl e \<Rightarrow> (Inl e, session)
      | Inr None \<Rightarrow> (Inl (HTTPException 404 ''Comment not found''), session)
      | Inr (Some comment) \<Rightarrow>
          (Inr (), session\<lparr>comments := session_delete Comment.id comment (comments session)\<rparr>))"

subsection \<open>Request validation and routing\<close>

text \<open>
  A request body is a JSON object: its members in the order they are written, of which
  Python's parser keeps the last one of each name. The schemas read the members named
  after their fields and ignore every other member. A member is \<open>null\<close> or a string
  here; a required \<^verbatim>\<open>str\<close> field accepts a string, an \<^verbatim>\<open>Optional[str] = None\<close> field
  accepts a string, \<open>null\<close> or no member at all. Neither declares a minimal length.
\<close>

datatype json = JNull | JStr string

type_synonym body = "(string \<times> json) list"

definition member_of :: "body \<Rightarrow> string \<Rightarrow> json option" where
  "member_of b k = map_of (rev b) k"

definition required_str :: "body \<Rightarrow> string \<Rightarrow> error + string" where
  "required_str b k =
     (case member_of b k of
        None \<Rightarrow> Inl RequestValidationError
      | Some JNull \<Rightarrow> Inl RequestValidationError
      | Some (JStr v) \<Rightarrow> Inr v)"

definition optional_str :: "body \<Rightarrow> string \<Rightarrow> string option" where
  "optional_str b k =
     (case member_of b k of
        None \<Rightarrow> None
      | Some JNull \<Rightarrow> None
      | Some (JStr v) \<Rightarrow> Some v)"

definition validate_TaskCreate :: "body \<Rightarrow> error + TaskCreate" where
  "validate_TaskCreate b =
     (case required_str b ''title'' of
        Inl e \<Rightarrow> Inl e
      | Inr t \<Rightarrow> Inr \<lparr>TaskCreate.title = t\<rparr>)"

definition validate_TaskUpdate :: "body \<Rightarrow> error + TaskUpdate" where
  "validate_TaskUpdate b = Inr \<lparr>TaskUpdate.title = optional_str b ''title''\<rparr>"

definition validate_CommentCreate :: "body \<Rightarrow> error + CommentCreate" where
  "validate_CommentCreate b =
     (case required_str b ''author'' of
        Inl e \<Rightarrow> Inl e
      | Inr a \<Rightarrow>
          (case required_str b ''content'' of
             Inl e \<Rightarrow> Inl e
           | Inr c \<Rightarrow> Inr \<lparr>CommentCreate.author = a, CommentCreate.content = c\<rparr>))"

definition validate_CommentUpdate :: "body \<Rightarrow> error + CommentUpdate" where
  "validate_CommentUpdate b =
     Inr \<lparr>CommentUpdate.author = optional_str b ''author'',
          CommentUpdate.content = optional_str b ''content''\<rparr>"

text \<open>\<^verbatim>\<open>Path(..., gt=0)\<close> on an integer path parameter.\<close>

definition Path_gt :: "int \<Rightarrow> int \<Rightarrow> error + int" where
  "Path_gt bound v = (if bound < v then Inr v else Inl RequestValidationError)"

text \<open>The ten routes of \<open>app\<close>, with the path parameter already read as an integer.\<close>

datatype request =
    POST_tasks body
  | GET_tasks
  | GET_task int
  | PUT_task int body
  | DELETE_task int
  | GET_task_comments int
  | POST_task_comments int body
  | GET_comment int
  | PUT_comment int body
  | DELETE_comment int

datatype returned =
    TaskRead Task
  | TaskReads "Task list"
  | CommentRead Comment
  | CommentReads "Comment list"
  | NoContent

datatype response = Response int returned

definition respond ::
  "int \<Rightarrow> ('a \<Rightarrow> returned) \<Rightarrow> (error + 'a) \<times> store \<Rightarrow> (error + response) \<times> store" where
  "respond code wrap r =
     (case fst r of
        Inl e \<Rightarrow> (Inl e, snd r)
      | Inr v \<Rightarrow> (Inr (Response code (wrap v)), snd r))"

fun handle :: "request \<Rightarrow> store \<Rightarrow> (error + response) \<times> store" where
  "handle (POST_tasks b) session =
     (case validate_TaskCreate b of
        Inl e \<Rightarrow> (Inl e, session)
      | Inr task \<Rightarrow> respond 201 TaskRead (create_task task session))"
| "handle GET_tasks session = respond 200 TaskReads (list_tasks session)"
| "handle (GET_task i) session = respond 200 TaskRead (get_task i session)"
| "handle (PUT_task i b) session =
     (case validate_TaskUpdate b of
        Inl e \<Rightarrow> (Inl e, session)
      | Inr p \<Rightarrow> respond 200 TaskRead (update_task i p session))"
| "handle (DELETE_task i) session = respond 204 (\<lambda>_. NoContent) (delete_task i session)"
| "handle (GET_task_comments i) session =
     (case Path_gt 0 i of
        Inl e \<Rightarrow> (Inl e, session)
      | Inr i \<Rightarrow> respond 200 CommentReads (list_comments i session))"
| "handle (POST_task_comments i b) session =
     (case validate_CommentCreate b of
        Inl e \<Rightarrow> (Inl e, session)
      | Inr p \<Rightarrow> respond 201 CommentRead (add_comment i p session))"
| "handle (GET_comment i) session = respond 200 CommentRead (get_comment i session)"
| "handle (PUT_comment i b) session =
     (case validate_CommentUpdate b of
        Inl e \<Rightarrow> (Inl e, session)
      | Inr p \<Rightarrow> respond 200 CommentRead (update_comment i p session))"
| "handle (DELETE_comment i) session = respond 204 (\<lambda>_. NoContent) (delete_comment i session)"

text \<open>
  The stores the application can be in: every primary key is a positive SQLite INTEGER and
  occurs once in its table. The empty database is such a store, and a request keeps it
  one as long as the keys the tables generate stay within the 64-bit range.
\<close>

definition wf_ids :: "int list \<Rightarrow> bool" where
  "wf_ids ids \<longleftrightarrow> distinct ids \<and> list_all (\<lambda>i. 0 < i \<and> int64 i) ids"

definition wf_store :: "store \<Rightarrow> bool" where
  "wf_store s \<longleftrightarrow> wf_ids (map Task.id (tasks s)) \<and> wf_ids (map Comment.id (comments s))"

definition keys_up_to :: "int \<Rightarrow> store \<Rightarrow> bool" where
  "keys_up_to k s \<longleftrightarrow>
     list_all (\<lambda>i. i \<le> k) (map Task.id (tasks s)) \<and>
     list_all (\<lambda>i. i \<le> k) (map Comment.id (comments s))"

text \<open>A sequence of requests, each on the store the one before left.\<close>

fun run :: "request list \<Rightarrow> store \<Rightarrow> store" where
  "run [] s = s"
| "run (r # rs) s = run rs (snd (handle r s))"

text \<open>A store with two tasks and a comment on each, for the examples below.\<close>

definition example_store :: store where
  "example_store =
     \<lparr>tasks = [\<lparr>Task.id = 1, title = ''A''\<rparr>, \<lparr>Task.id = 2, title = ''B''\<rparr>],
      comments = [\<lparr>Comment.id = 1, task_id = 1, author = ''bob'', content = ''hi''\<rparr>,
                  \<lparr>Comment.id = 2, task_id = 2, author = ''eve'', content = ''yo''\<rparr>]\<rparr>"

section \<open>The store operations\<close>

lemma select_pk_Some: "select_pk pk i rows = Some r \<Longrightarrow> pk r = i \<and> r \<in> set rows"
  by (auto simp: select_pk_def find_Some_iff)

lemma select_pk_None_iff: "select_pk pk i rows = None \<longleftrightarrow> i \<notin> pk ` set rows"
  by (auto simp: select_pk_def find_None_iff)

lemma select_pk_distinct:
  "distinct (map pk rows) \<Longrightarrow> r \<in> set rows \<Longrightarrow> select_pk pk (pk r) rows = Some r"
  by (induction rows) (auto simp: select_pk_def)


lemma session_get_absent:
  "i \<notin> pk ` set rows \<Longrightarrow>
     session_get pk i rows = (if int64 i then Inr None else Inl OverflowError)"
  by (simp add: session_get_def select_pk_None_iff)

lemma next_id_greater: "i \<in> set ids \<Longrightarrow> i < next_id ids"
proof -
  assume "i \<in> set ids"
  then have "ids \<noteq> []" and "i \<le> Max (set ids)" by auto
  then show ?thesis by (simp add: next_id_def)
qed

lemma next_id_notin: "next_id ids \<notin> set ids"
  using next_id_greater [of "next_id ids" ids] by auto

lemma next_id_positive: "list_all (\<lambda>i. 0 < i \<and> P i) ids \<Longrightarrow> 0 < next_id ids"
proof (cases "ids = []")
  case True
  then show ?thesis by (simp add: next_id_def)
next
  case False
  assume "list_all (\<lambda>i. 0 < i \<and> P i) ids"
  with False have "0 < hd ids" and "hd ids \<in> set ids" by (cases ids; simp)+
  with next_id_greater [of "hd ids" ids] show ?thesis by simp
qed

lemma next_id_le: "0 \<le> k \<Longrightarrow> list_all (\<lambda>i. i \<le> k) ids \<Longrightarrow> next_id ids \<le> k + 1"
  by (auto simp: next_id_def list_all_iff)




lemma select_pk_delete:
  "select_pk pk i (session_delete pk obj rows) =
     (if i = pk obj then None else select_pk pk i rows)"
  by (induction rows) (auto simp: select_pk_def session_delete_def)

lemma map_pk_session_update: "map pk (session_update pk obj rows) = map pk rows"
  by (induction rows) (auto simp: session_update_def)

lemma map_pk_session_delete:
  "map pk (session_delete pk obj rows) = filter (\<lambda>j. j \<noteq> pk obj) (map pk rows)"
  by (induction rows) (auto simp: session_delete_def)

section \<open>The invariant of the store\<close>

lemma wf_store_empty: "wf_store empty_store"
  by (simp add: wf_store_def wf_ids_def empty_store_def)

lemma wf_example_store: "wf_store example_store"
  by (simp add: wf_store_def wf_ids_def int64_def example_store_def)

lemma wf_ids_insert: "wf_ids ids \<Longrightarrow> int64 (next_id ids) \<Longrightarrow> wf_ids (ids @ [next_id ids])"
  using next_id_positive [of int64 ids] by (simp add: wf_ids_def next_id_notin)

lemma wf_ids_filter: "wf_ids ids \<Longrightarrow> wf_ids (filter P ids)"
  by (simp add: wf_ids_def list_all_iff)

lemma wf_create_task:
  "wf_store s \<Longrightarrow> int64 (next_id (map Task.id (tasks s))) \<Longrightarrow> wf_store (snd (create_task c s))"
  by (simp add: wf_store_def create_task_def Let_def wf_ids_insert)

lemma wf_update_task: "wf_store s \<Longrightarrow> wf_store (snd (update_task i p s))"
  by (simp add: wf_store_def update_task_def Let_def map_pk_session_update
      split: sum.splits option.splits)

lemma wf_delete_task: "wf_store s \<Longrightarrow> wf_store (snd (delete_task i s))"
  by (simp add: wf_store_def delete_task_def map_pk_session_delete wf_ids_filter
      split: sum.splits option.splits)

lemma wf_add_comment:
  "wf_store s \<Longrightarrow> int64 (next_id (map Comment.id (comments s))) \<Longrightarrow>
     wf_store (snd (add_comment i p s))"
  by (simp add: wf_store_def add_comment_def Let_def wf_ids_insert
      split: sum.splits option.splits)

lemma wf_update_comment: "wf_store s \<Longrightarrow> wf_store (snd (update_comment i p s))"
  by (simp add: wf_store_def update_comment_def Let_def map_pk_session_update
      split: sum.splits option.splits)

lemma wf_delete_comment: "wf_store s \<Longrightarrow> wf_store (snd (delete_comment i s))"
  by (simp add: wf_store_def delete_comment_def map_pk_session_delete wf_ids_filter
      split: sum.splits option.splits)

lemma snd_respond: "snd (respond code wrap r) = snd r"
  by (simp add: respond_def split: sum.splits)

text \<open>
  A request keeps the invariant when the next keys of the two tables are keys SQLite can
  hold, which they are unless a table has been filled up to the key \<open>2^63 - 1\<close>.
\<close>

lemma wf_handle:
  "wf_store s \<Longrightarrow> int64 (next_id (map Task.id (tasks s))) \<Longrightarrow>
     int64 (next_id (map Comment.id (comments s))) \<Longrightarrow> wf_store (snd (handle r s))"
  by (cases r)
     (auto simp: snd_respond wf_create_task wf_update_task wf_delete_task wf_add_comment
        wf_update_comment wf_delete_comment list_tasks_def get_task_def get_comment_def
        list_comments_def split: sum.splits option.splits)

lemma keys_up_to_handle:
  "0 \<le> k \<Longrightarrow> keys_up_to k s \<Longrightarrow> keys_up_to (k + 1) (snd (handle r s))"
proof -
  assume k: "0 \<le> k" and b: "keys_up_to k s"
  have mono: "list_all (\<lambda>i. i \<le> k) ids \<Longrightarrow> list_all (\<lambda>i. i \<le> k + 1) ids" for ids
    by (auto simp: list_all_iff)
  have flt: "list_all (\<lambda>i. i \<le> k) ids \<Longrightarrow> list_all (\<lambda>i. i \<le> k + 1) (filter P ids)"
    for ids and P :: "int \<Rightarrow> bool"
    by (auto simp: list_all_iff)
  from k b show ?thesis
    by (cases r)
       (auto simp: keys_up_to_def snd_respond create_task_def list_tasks_def get_task_def
          update_task_def delete_task_def list_comments_def add_comment_def get_comment_def
          update_comment_def delete_comment_def Let_def map_pk_session_update
          map_pk_session_delete next_id_le mono flt
          split: sum.splits option.splits)
qed

lemma int64_next_id:
  "0 \<le> k \<Longrightarrow> k + 1 < 2 ^ 63 \<Longrightarrow> list_all (\<lambda>i. i \<le> k) ids \<Longrightarrow>
     list_all (\<lambda>i. 0 < i \<and> int64 i) ids \<Longrightarrow> int64 (next_id ids)"
  using next_id_le [of k ids] next_id_positive [of int64 ids] by (simp add: int64_def)

lemma wf_handle_bounded:
  "wf_store s \<Longrightarrow> 0 \<le> k \<Longrightarrow> keys_up_to k s \<Longrightarrow> k + 1 < 2 ^ 63 \<Longrightarrow>
     wf_store (snd (handle r s))"
  by (rule wf_handle) (simp_all add: wf_store_def wf_ids_def keys_up_to_def int64_next_id)

text \<open>
  Every store reached from the empty database by fewer than \<open>2^63\<close> requests satisfies
  the invariant.
\<close>

lemma wf_run:
  "wf_store s \<Longrightarrow> 0 \<le> k \<Longrightarrow> keys_up_to k s \<Longrightarrow> k + int (length rs) < 2 ^ 63 \<Longrightarrow>
     wf_store (run rs s)"
proof (induction rs arbitrary: s k)
  case Nil
  then show ?case by simp
next
  case (Cons r rs)
  from Cons.prems have "wf_store (snd (handle r s))"
    by (intro wf_handle_bounded [of s k]) simp_all
  moreover from Cons.prems have "keys_up_to (k + 1) (snd (handle r s))"
    by (intro keys_up_to_handle) simp_all
  moreover from Cons.prems have "0 \<le> k + 1" and "k + 1 + int (length rs) < 2 ^ 63"
    by simp_all
  ultimately show ?case
    using Cons.IH [of "snd (handle r s)" "k + 1"] by simp
qed

lemma wf_run_empty: "int (length rs) < 2 ^ 63 \<Longrightarrow> wf_store (run rs empty_store)"
proof -
  assume "int (length rs) < 2 ^ 63"
  moreover have "keys_up_to 0 empty_store"
    by (simp add: keys_up_to_def empty_store_def)
  ultimately show ?thesis
    using wf_run [OF wf_store_empty, of 0 rs] by simp
qed

lemma wf_store_task_positive: "wf_store s \<Longrightarrow> i \<in> Task.id ` set (tasks s) \<Longrightarrow> 0 < i"
  by (auto simp: wf_store_def wf_ids_def list_all_iff)

lemma wf_store_task_int64: "wf_store s \<Longrightarrow> i \<in> Task.id ` set (tasks s) \<Longrightarrow> int64 i"
  by (auto simp: wf_store_def wf_ids_def list_all_iff)

lemma wf_store_comment_int64:
  "wf_store s \<Longrightarrow> c \<in> set (comments s) \<Longrightarrow> int64 (Comment.id c)"
  by (auto simp: wf_store_def wf_ids_def list_all_iff)

lemma get_task_existing:
  "wf_store s \<Longrightarrow> i \<in> Task.id ` set (tasks s) \<Longrightarrow> \<exists>task. get_task i s = (Inr task, s)"
  using wf_store_task_int64 [of s i]
  by (cases "select_pk Task.id i (tasks s)")
     (auto simp: get_task_def session_get_def select_pk_None_iff)

lemma get_comment_existing:
  "wf_store s \<Longrightarrow> c \<in> set (comments s) \<Longrightarrow>
     \<exists>comment. get_comment (Comment.id c) s = (Inr comment, s)"
  using wf_store_comment_int64 [of s c]
  by (cases "select_pk Comment.id (Comment.id c) (comments s)")
     (auto simp: get_comment_def session_get_def select_pk_None_iff)

section \<open>Properties of the endpoints\<close>








text \<open>
  C3, as the code has it. Creating a Comment under a Task id that no stored Task has
  fails and returns the store as it was: no Comment row is inserted. The failure is 404
  "Task not found" when the id is within the signed 64-bit range, and the OverflowError
  of the lookup when it is not. The route itself, whatever the body, fails as well and
  leaves the store as it was.
\<close>

theorem add_comment_missing_task:
  assumes "T \<notin> Task.id ` set (tasks s)"
  shows "add_comment T p s =
       (Inl (if int64 T then HTTPException 404 ''Task not found'' else OverflowError), s) \<and>
     (\<exists>e. handle (POST_task_comments T b) s = (Inl e, s))"
  using session_get_absent [OF assms]
  by (simp add: add_comment_def respond_def split: sum.splits)

theorem add_comment_missing_task_witness:
  "7 \<notin> Task.id ` set (tasks example_store) \<and> int64 7 \<and>
   add_comment 7 \<lparr>CommentCreate.author = ''bob'', content = ''hi''\<rparr> example_store =
     (Inl (HTTPException 404 ''Task not found''), example_store) \<and>
   handle (POST_task_comments 7 [(''author'', JStr ''bob''), (''content'', JStr ''hi'')])
     example_store = (Inl (HTTPException 404 ''Task not found''), example_store)"
proof -
  have h: "7 \<notin> Task.id ` set (tasks example_store)"
    by (simp add: example_store_def)
  have i: "int64 7"
    by (simp add: int64_def)
  show ?thesis
    using h i add_comment_missing_task [OF h,
        of "\<lparr>CommentCreate.author = ''bob'', content = ''hi''\<rparr>"
           "[(''author'', JStr ''bob''), (''content'', JStr ''hi'')]"]
    by (simp add: validate_CommentCreate_def required_str_def member_of_def respond_def)
qed

text \<open>
  C3, as the claim states it, fails: under the Task id \<open>2^63\<close>, which no stored Task
  has, the create does not fail with NotFound but with the OverflowError of the lookup.
\<close>

theorem add_comment_overflow_counterexample:
  "9223372036854775808 \<notin> Task.id ` set (tasks example_store) \<and>
   add_comment 9223372036854775808 \<lparr>CommentCreate.author = ''bob'', content = ''hi''\<rparr>
     example_store = (Inl OverflowError, example_store)"
  by (simp add: add_comment_def session_get_def int64_def example_store_def)

text \<open>
  C4. In a store of the application, for a Task id \<open>T\<close> that is in it: deleting Task
  \<open>T\<close> succeeds, fetching Task \<open>T\<close> afterwards fails with 404 "Task not found", the
  comments table is the one before the delete, and every Comment stored before the
  delete, those of Task \<open>T\<close> too, is returned when fetched by its Comment id afterwards.
\<close>

theorem delete_task_keeps_comments:
  assumes "wf_store s" and "T \<in> Task.id ` set (tasks s)"
  shows "\<exists>s'. delete_task T s = (Inr (), s') \<and>
     get_task T s' = (Inl (HTTPException 404 ''Task not found''), s') \<and>
     comments s' = comments s \<and>
     (\<forall>c \<in> set (comments s). get_comment (Comment.id c) s' = (Inr c, s'))"
proof -
  from assms have rng: "int64 T"
    by (rule wf_store_task_int64)
  from assms(2) obtain task where sel: "select_pk Task.id T (tasks s) = Some task"
    by (cases "select_pk Task.id T (tasks s)") (auto simp: select_pk_None_iff)
  then have id: "Task.id task = T"
    by (simp add: select_pk_Some)
  from assms(1) have "distinct (map Comment.id (comments s))"
    by (simp add: wf_store_def wf_ids_def)
  then have "\<forall>c \<in> set (comments s). select_pk Comment.id (Comment.id c) (comments s) = Some c"
    by (simp add: select_pk_distinct)
  moreover from assms(1) have "\<forall>c \<in> set (comments s). int64 (Comment.id c)"
    by (simp add: wf_store_comment_int64)
  ultimately show ?thesis
    using rng sel id
    by (simp add: delete_task_def get_task_def get_comment_def session_get_def
        select_pk_delete)
qed

theorem delete_task_keeps_comments_witness:
  "wf_store example_store \<and> 1 \<in> Task.id ` set (tasks example_store) \<and>
   \<lparr>Comment.id = 1, task_id = 1, author = ''bob'', content = ''hi''\<rparr>
     \<in> set (comments example_store) \<and>
   (\<exists>s'. delete_task 1 example_store = (Inr (), s') \<and>
      get_task 1 s' = (Inl (HTTPException 404 ''Task not found''), s') \<and>
      comments s' = comments example_store \<and>
      get_comment 1 s' =
        (Inr \<lparr>Comment.id = 1, task_id = 1, author = ''bob'', content = ''hi''\<rparr>, s'))"
proof -
  have h: "1 \<in> Task.id ` set (tasks example_store)"
    by (simp add: example_store_def)
  have c: "\<lparr>Comment.id = 1, task_id = 1, author = ''bob'', content = ''hi''\<rparr>
     \<in> set (comments example_store)"
    by (simp add: example_store_def)
  from delete_task_keeps_comments [OF wf_example_store h] obtain s' where
    "delete_task 1 example_store = (Inr (), s')"
    "get_task 1 s' = (Inl (HTTPException 404 ''Task not found''), s')"
    "comments s' = comments example_store"
    "\<forall>c \<in> set (comments example_store). get_comment (Comment.id c) s' = (Inr c, s')"
    by blast
  with c have "delete_task 1 example_store = (Inr (), s') \<and>
      get_task 1 s' = (Inl (HTTPException 404 ''Task not found''), s') \<and>
      comments s' = comments example_store \<and>
      get_comment 1 s' =
        (Inr \<lparr>Comment.id = 1, task_id = 1, author = ''bob'', content = ''hi''\<rparr>, s')"
    by fastforce
  with wf_example_store h c show ?thesis by blast
qed

text \<open>
  C5. In a store of the application, for a Task id \<open>T\<close> that is in it: listing the
  comments of \<open>T\<close> succeeds, leaves the store as it was, and returns exactly the stored
  Comments whose \<open>task_id\<close> is \<open>T\<close>: each of them, and no Comment of another task.
\<close>

theorem list_comments_exact:
  assumes "wf_store s" and "T \<in> Task.id ` set (tasks s)"
  shows "\<exists>cs. handle (GET_task_comments T) s = (Inr (Response 200 (CommentReads cs)), s) \<and>
     list_comments T s = (Inr cs, s) \<and>
     set cs = {c \<in> set (comments s). Comment.task_id c = T}"
proof -
  from assms have pos: "0 < T"
    by (rule wf_store_task_positive)
  from assms have rng: "int64 T"
    by (rule wf_store_task_int64)
  from assms(2) obtain task where "select_pk Task.id T (tasks s) = Some task"
    by (cases "select_pk Task.id T (tasks s)") (auto simp: select_pk_None_iff)
  with pos rng show ?thesis
    by (simp add: Path_gt_def respond_def list_comments_def session_get_def)
qed

theorem list_comments_exact_witness:
  "wf_store example_store \<and> 1 \<in> Task.id ` set (tasks example_store) \<and>
   handle (GET_task_comments 1) example_store =
     (Inr (Response 200 (CommentReads
        [\<lparr>Comment.id = 1, task_id = 1, author = ''bob'', content = ''hi''\<rparr>])), example_store)"
proof -
  have h: "1 \<in> Task.id ` set (tasks example_store)"
    by (simp add: example_store_def)
  have "list_comments 1 example_store =
      (Inr [\<lparr>Comment.id = 1, task_id = 1, author = ''bob'', content = ''hi''\<rparr>], example_store)"
    by (simp add: list_comments_def session_get_def int64_def select_pk_def example_store_def)
  with list_comments_exact [OF wf_example_store h] wf_example_store h
  show ?thesis by auto
qed



subsection \<open>Ids and failures\<close>

lemma handle_tasks_ids:
  "subseq (tasks (snd (handle r s))) (tasks s) \<or>
   prefix (map Task.id (tasks s)) (map Task.id (tasks (snd (handle r s))))"
  by (cases r)
     (simp_all add: snd_respond create_task_def list_tasks_def get_task_def update_task_def
        delete_task_def list_comments_def add_comment_def get_comment_def update_comment_def
        delete_comment_def Let_def map_pk_session_update session_delete_def
        split: sum.splits option.splits)

lemma handle_comments_ids:
  "subseq (comments (snd (handle r s))) (comments s) \<or>
   prefix (map Comment.id (comments s)) (map Comment.id (comments (snd (handle r s))))"
  by (cases r)
     (simp_all add: snd_respond create_task_def list_tasks_def get_task_def update_task_def
        delete_task_def list_comments_def add_comment_def get_comment_def update_comment_def
        delete_comment_def Let_def map_pk_session_update session_delete_def
        split: sum.splits option.splits)

lemma update_task_returns_id: "update_task i p s = (Inr task, s') \<Longrightarrow> Task.id task = i"
  by (auto simp: update_task_def Let_def session_get_def dest: select_pk_Some
      split: sum.splits option.splits if_splits)

lemma update_comment_returns_id:
  "update_comment j q s = (Inr comment, s') \<Longrightarrow> Comment.id comment = j"
  by (auto simp: update_comment_def Let_def session_get_def dest: select_pk_Some
      split: sum.splits option.splits if_splits)

text \<open>
  C8. Ids are immutable once assigned. After any request, each table is either the table
  before with some rows removed and no row altered, or a table in which every row stored
  before is at its place with its id, new rows coming after. The Task update and the
  Comment update return an entity whose id is the id of the request path.
\<close>

theorem ids_immutable:
  "(subseq (tasks (snd (handle r s))) (tasks s) \<or>
    prefix (map Task.id (tasks s)) (map Task.id (tasks (snd (handle r s))))) \<and>
   (subseq (comments (snd (handle r s))) (comments s) \<or>
    prefix (map Comment.id (comments s)) (map Comment.id (comments (snd (handle r s))))) \<and>
   (update_task i p s = (Inr task, s') \<longrightarrow> Task.id task = i) \<and>
   (update_comment j q s = (Inr comment, s'') \<longrightarrow> Comment.id comment = j)"
  using handle_tasks_ids [of r s] handle_comments_ids [of r s]
    update_task_returns_id [of i p s task s'] update_comment_returns_id [of j q s comment s'']
  by blast

theorem ids_immutable_witness:
  "update_task 1 \<lparr>TaskUpdate.title = Some ''Z''\<rparr> example_store =
     (Inr \<lparr>Task.id = 1, title = ''Z''\<rparr>,
      example_store\<lparr>tasks := [\<lparr>Task.id = 1, title = ''Z''\<rparr>, \<lparr>Task.id = 2, title = ''B''\<rparr>]\<rparr>) \<and>
   Task.id \<lparr>Task.id = 1, title = ''Z''\<rparr> = 1 \<and>
   update_comment 2 \<lparr>CommentUpdate.author = None, content = Some ''ho''\<rparr> example_store =
     (Inr \<lparr>Comment.id = 2, task_id = 2, author = ''eve'', content = ''ho''\<rparr>,
      example_store\<lparr>comments :=
        [\<lparr>Comment.id = 1, task_id = 1, author = ''bob'', content = ''hi''\<rparr>,
         \<lparr>Comment.id = 2, task_id = 2, author = ''eve'', content = ''ho''\<rparr>]\<rparr>) \<and>
   Comment.id \<lparr>Comment.id = 2, task_id = 2, author = ''eve'', content = ''ho''\<rparr> = 2 \<and>
   map Task.id (tasks (snd (handle (PUT_task 1 [(''title'', JStr ''Z'')]) example_store))) = [1, 2]"
proof -
  have u: "update_task 1 \<lparr>TaskUpdate.title = Some ''Z''\<rparr> example_store =
     (Inr \<lparr>Task.id = 1, title = ''Z''\<rparr>,
      example_store\<lparr>tasks := [\<lparr>Task.id = 1, title = ''Z''\<rparr>, \<lparr>Task.id = 2, title = ''B''\<rparr>]\<rparr>)"
    by (simp add: update_task_def session_get_def int64_def select_pk_def session_update_def
        example_store_def Let_def)
  have c: "update_comment 2 \<lparr>CommentUpdate.author = None, content = Some ''ho''\<rparr> example_store =
     (Inr \<lparr>Comment.id = 2, task_id = 2, author = ''eve'', content = ''ho''\<rparr>,
      example_store\<lparr>comments :=
        [\<lparr>Comment.id = 1, task_id = 1, author = ''bob'', content = ''hi''\<rparr>,
         \<lparr>Comment.id = 2, task_id = 2, author = ''eve'', content = ''ho''\<rparr>]\<rparr>)"
    by (simp add: update_comment_def session_get_def int64_def select_pk_def session_update_def
        example_store_def Let_def)
  have h: "map Task.id (tasks (snd (handle (PUT_task 1 [(''title'', JStr ''Z'')]) example_store)))
      = [1, 2]"
    by (simp add: validate_TaskUpdate_def optional_str_def member_of_def snd_respond
        update_task_def session_get_def int64_def select_pk_def session_update_def
        example_store_def Let_def)
  from u c h ids_immutable [of "PUT_task 1 [(''title'', JStr ''Z'')]" example_store
      1 "\<lparr>TaskUpdate.title = Some ''Z''\<rparr>" "\<lparr>Task.id = 1, title = ''Z''\<rparr>"
      "example_store\<lparr>tasks := [\<lparr>Task.id = 1, title = ''Z''\<rparr>, \<lparr>Task.id = 2, title = ''B''\<rparr>]\<rparr>"
      2 "\<lparr>CommentUpdate.author = None, content = Some ''ho''\<rparr>"
      "\<lparr>Comment.id = 2, task_id = 2, author = ''eve'', content = ''ho''\<rparr>"
      "example_store\<lparr>comments :=
        [\<lparr>Comment.id = 1, task_id = 1, author = ''bob'', content = ''hi''\<rparr>,
         \<lparr>Comment.id = 2, task_id = 2, author = ''eve'', content = ''ho''\<rparr>]\<rparr>"]
  show ?thesis by simp
qed

lemma handle_error_store: "fst (handle r s) = Inl e \<Longrightarrow> snd (handle r s) = s"
  by (cases r)
     (auto simp: respond_def create_task_def list_tasks_def get_task_def update_task_def
        delete_task_def list_comments_def add_comment_def get_comment_def update_comment_def
        delete_comment_def Let_def split: sum.splits option.splits)

text \<open>
  C9, as the code has it. For a Task id that is not in the store, Task update and Task
  delete fail and return the store as it was, with 404 "Task not found" when the id is
  within the signed 64-bit range and with the OverflowError of the lookup when it is
  not; likewise Comment update and Comment delete for a Comment id that is not in the
  store, with 404 "Comment not found". Every request that fails, with whatever error,
  leaves the store as it was.
\<close>

theorem not_found_keeps_store:
  "(i \<notin> Task.id ` set (tasks s) \<longrightarrow>
      update_task i p s =
        (Inl (if int64 i then HTTPException 404 ''Task not found'' else OverflowError), s) \<and>
      delete_task i s =
        (Inl (if int64 i then HTTPException 404 ''Task not found'' else OverflowError), s)) \<and>
   (j \<notin> Comment.id ` set (comments s) \<longrightarrow>
      update_comment j q s =
        (Inl (if int64 j then HTTPException 404 ''Comment not found'' else OverflowError), s) \<and>
      delete_comment j s =
        (Inl (if int64 j then HTTPException 404 ''Comment not found'' else OverflowError), s)) \<and>
   (fst (handle r s) = Inl e \<longrightarrow> snd (handle r s) = s)"
  by (simp add: handle_error_store update_task_def delete_task_def update_comment_def
      delete_comment_def session_get_absent)

theorem not_found_keeps_store_witness:
  "7 \<notin> Task.id ` set (tasks example_store) \<and> int64 7 \<and>
   update_task 7 \<lparr>TaskUpdate.title = Some ''Z''\<rparr> example_store =
     (Inl (HTTPException 404 ''Task not found''), example_store) \<and>
   delete_task 7 example_store = (Inl (HTTPException 404 ''Task not found''), example_store) \<and>
   9 \<notin> Comment.id ` set (comments example_store) \<and> int64 9 \<and>
   update_comment 9 \<lparr>CommentUpdate.author = Some ''amy'', content = None\<rparr> example_store =
     (Inl (HTTPException 404 ''Comment not found''), example_store) \<and>
   delete_comment 9 example_store =
     (Inl (HTTPException 404 ''Comment not found''), example_store) \<and>
   fst (handle (DELETE_comment 9) example_store) = Inl (HTTPException 404 ''Comment not found'') \<and>
   snd (handle (DELETE_comment 9) example_store) = example_store"
proof -
  have t: "7 \<notin> Task.id ` set (tasks example_store)"
    and c: "9 \<notin> Comment.id ` set (comments example_store)"
    by (simp_all add: example_store_def)
  have i: "int64 7" "int64 9"
    by (simp_all add: int64_def)
  have f: "fst (handle (DELETE_comment 9) example_store) =
      Inl (HTTPException 404 ''Comment not found'')"
    by (simp add: respond_def delete_comment_def session_get_def int64_def select_pk_def
        example_store_def)
  from t c i f not_found_keeps_store [of 7 example_store "\<lparr>TaskUpdate.title = Some ''Z''\<rparr>"
      9 "\<lparr>CommentUpdate.author = Some ''amy'', content = None\<rparr>" "DELETE_comment 9"
      "HTTPException 404 ''Comment not found''"]
  show ?thesis by (simp add: respond_def)
qed

text \<open>
  C9, as the claim states it, fails: deleting the Comment id \<open>2^63\<close>, which is not in
  the store, does not raise NotFound but the OverflowError of the lookup.
\<close>

theorem not_found_overflow_counterexample:
  "9223372036854775808 \<notin> Comment.id ` set (comments example_store) \<and>
   delete_comment 9223372036854775808 example_store = (Inl OverflowError, example_store)"
  by (simp add: delete_comment_def session_get_def int64_def example_store_def)




subsection \<open>The scenario of the specification\<close>

text \<open>
  Creating Task "A" in the empty database, commenting on it and deleting it: the ids are 1
  and 1, and the comment outlives its task.
\<close>

lemma scenario:
  "handle (POST_tasks [(''title'', JStr ''A'')]) empty_store =
     (Inr (Response 201 (TaskRead \<lparr>Task.id = 1, title = ''A''\<rparr>)),
      \<lparr>tasks = [\<lparr>Task.id = 1, title = ''A''\<rparr>], comments = []\<rparr>)"
  "handle (POST_task_comments 1 [(''author'', JStr ''bob''), (''content'', JStr ''hi'')])
      \<lparr>tasks = [\<lparr>Task.id = 1, title = ''A''\<rparr>], comments = []\<rparr> =
     (Inr (Response 201 (CommentRead
        \<lparr>Comment.id = 1, task_id = 1, author = ''bob'', content = ''hi''\<rparr>)),
      \<lparr>tasks = [\<lparr>Task.id = 1, title = ''A''\<rparr>],
       comments = [\<lparr>Comment.id = 1, task_id = 1, author = ''bob'', content = ''hi''\<rparr>]\<rparr>)"
  "handle (DELETE_task 1)
      \<lparr>tasks = [\<lparr>Task.id = 1, title = ''A''\<rparr>],
       comments = [\<lparr>Comment.id = 1, task_id = 1, author = ''bob'', content = ''hi''\<rparr>]\<rparr> =
     (Inr (Response 204 NoContent),
      \<lparr>tasks = [],
       comments = [\<lparr>Comment.id = 1, task_id = 1, author = ''bob'', content = ''hi''\<rparr>]\<rparr>)"
  by (simp_all add: validate_TaskCreate_def validate_CommentCreate_def required_str_def
      member_of_def respond_def create_task_def add_comment_def delete_task_def
      session_get_def int64_def select_pk_def session_delete_def next_id_def
      empty_store_def Let_def)

end
